theory Spec2Isabelle
  imports Complex_Main "HOL-Library.Word"
begin

section \<open>Python values used by \<open>coqui_server.py\<close>\<close>

text \<open>
  A Python \<open>str\<close> is a sequence of Unicode code points, so it is modelled as a list of
  natural numbers; \<open>S\<close> embeds an ASCII literal of the source.
\<close>

type_synonym pystr = "nat list"

definition S :: "string \<Rightarrow> pystr" where
  "S s = map of_char s"

text \<open>
  \<open>str.isspace\<close> on one code point: the white-space table of CPython
  (\<open>_PyUnicode_IsWhitespace\<close>), which \<open>str.strip()\<close> without arguments uses.
\<close>

definition py_isspace :: "nat \<Rightarrow> bool" where
  "py_isspace c =
     ((9 \<le> c \<and> c \<le> 13) \<or> (28 \<le> c \<and> c \<le> 32) \<or> c = 133 \<or> c = 160 \<or> c = 5760
      \<or> (8192 \<le> c \<and> c \<le> 8202) \<or> c = 8232 \<or> c = 8233 \<or> c = 8239 \<or> c = 8287
      \<or> c = 12288)"

definition strip :: "pystr \<Rightarrow> pystr" where
  "strip s = rev (dropWhile py_isspace (rev (dropWhile py_isspace s)))"

text \<open>
  A Python \<open>float\<close>: a finite value, an infinity or a NaN. The server does no arithmetic on
  the request's speed, it only passes it on.
\<close>

datatype pyfloat = Fin real | PInf | NInf | NaN

text \<open>
  What \<open>request.get_json()\<close> returns: \<open>None\<close> (\<open>JNull\<close>), a bool, an int, a float, a str,
  a list, or a dict (its items in order; \<open>map_of\<close> looks a key up).
\<close>

datatype json =
    JNull
  | JBool bool
  | JInt int
  | JFloat pyfloat
  | JString pystr
  | JArray "json list"
  | JObject "(pystr \<times> json) list"

text \<open>
  An exception (an instance of \<open>Exception\<close>, which is what \<open>except Exception\<close> catches):
  its class name and \<open>str(e)\<close>. The message texts below are CPython's and vary a little
  between versions; nothing proved here depends on their wording.
\<close>

datatype pyexc = PyExc (exc_class: string) (exc_str: pystr)

fun type_name :: "json \<Rightarrow> string" where
  "type_name JNull = ''NoneType''"
| "type_name (JBool _) = ''bool''"
| "type_name (JInt _) = ''int''"
| "type_name (JFloat _) = ''float''"
| "type_name (JString _) = ''str''"
| "type_name (JArray _) = ''list''"
| "type_name (JObject _) = ''dict''"

text \<open>Truth value of an object, as \<open>not data\<close> tests it.\<close>

fun truthy :: "json \<Rightarrow> bool" where
  "truthy JNull = False"
| "truthy (JBool b) = b"
| "truthy (JInt n) = (n \<noteq> 0)"
| "truthy (JFloat f) = (f \<noteq> Fin 0)"
| "truthy (JString s) = (s \<noteq> [])"
| "truthy (JArray xs) = (xs \<noteq> [])"
| "truthy (JObject kvs) = (kvs \<noteq> [])"

text \<open>\<open>k in s\<close> for two strings: \<open>k\<close> occurs in \<open>s\<close> as a contiguous piece.\<close>

fun str_contains :: "pystr \<Rightarrow> pystr \<Rightarrow> bool" where
  "str_contains k [] = (k = [])"
| "str_contains k (c # cs) = (take (length k) (c # cs) = k \<or> str_contains k cs)"

text \<open>
  \<open>key in data\<close>: key membership for a dict, element membership for a list, substring
  test for a str; the other types are not containers and raise \<open>TypeError\<close>.
\<close>

fun py_in :: "pystr \<Rightarrow> json \<Rightarrow> pyexc + bool" where
  "py_in k (JObject kvs) = Inr (k \<in> set (map fst kvs))"
| "py_in k (JArray xs) = Inr (JString k \<in> set xs)"
| "py_in k (JString s) = Inr (str_contains k s)"
| "py_in k v =
     Inl (PyExc ''TypeError''
       (S ''argument of type '' @ [39] @ S (type_name v) @ [39] @ S '' is not iterable''))"

text \<open>\<open>data[key]\<close> with a str key.\<close>

fun py_getitem :: "json \<Rightarrow> pystr \<Rightarrow> pyexc + json" where
  "py_getitem (JObject kvs) k =
     (case map_of kvs k of
        Some v \<Rightarrow> Inr v
      | None \<Rightarrow> Inl (PyExc ''KeyError'' ([39] @ k @ [39])))"
| "py_getitem (JArray xs) k =
     Inl (PyExc ''TypeError'' (S ''list indices must be integers or slices, not str''))"
| "py_getitem (JString s) k =
     Inl (PyExc ''TypeError'' (S ''string indices must be integers''))"
| "py_getitem v k =
     Inl (PyExc ''TypeError''
       ([39] @ S (type_name v) @ [39] @ S '' object is not subscriptable''))"

text \<open>\<open>v.strip()\<close>: only a str has the method.\<close>

fun py_strip :: "json \<Rightarrow> pyexc + pystr" where
  "py_strip (JString s) = Inr (strip s)"
| "py_strip v =
     Inl (PyExc ''AttributeError''
       ([39] @ S (type_name v) @ [39] @ S '' object has no attribute '' @ [39] @ S ''strip'' @ [39]))"

text \<open>\<open>data.get(key, default)\<close>: the default only when the key is absent.\<close>

fun py_get :: "json \<Rightarrow> pystr \<Rightarrow> json \<Rightarrow> pyexc + json" where
  "py_get (JObject kvs) k d = Inr (case map_of kvs k of Some v \<Rightarrow> v | None \<Rightarrow> d)"
| "py_get v k d =
     Inl (PyExc ''AttributeError''
       ([39] @ S (type_name v) @ [39] @ S '' object has no attribute '' @ [39] @ S ''get'' @ [39]))"

text \<open>
  The parts of the Python runtime that the server calls and that are not part of the
  repository: the per-process string hash, and the conversions of a str and of an int
  to a float (\<open>Inl\<close> when they raise \<open>ValueError\<close> or \<open>OverflowError\<close>).
\<close>

record python =
  py_hash :: "pystr \<Rightarrow> int"
  float_of_str :: "pystr \<Rightarrow> pyexc + pyfloat"
  float_of_int :: "int \<Rightarrow> pyexc + pyfloat"

text \<open>\<open>float(v)\<close>.\<close>

fun py_float :: "python \<Rightarrow> json \<Rightarrow> pyexc + pyfloat" where
  "py_float py (JFloat f) = Inr f"
| "py_float py (JInt n) = float_of_int py n"
| "py_float py (JBool b) = Inr (Fin (if b then 1 else 0))"
| "py_float py (JString s) = float_of_str py s"
| "py_float py v =
     Inl (PyExc ''TypeError''
       (S ''float() argument must be a string or a real number, not ''
        @ [39] @ S (type_name v) @ [39]))"

text \<open>\<open>str(n)\<close> for an int, as the f-string \<open>{hash(text)}\<close> formats it: decimal digits.\<close>

fun nat_digits :: "nat \<Rightarrow> pystr" where
  "nat_digits n = (if n < 10 then [48 + n] else nat_digits (n div 10) @ [48 + n mod 10])"

declare nat_digits.simps [simp del]

definition str_int :: "int \<Rightarrow> pystr" where
  "str_int i = (if i < 0 then 45 # nat_digits (nat (- i)) else nat_digits (nat i))"

text \<open>\<open>os.path.join(a, b)\<close> with two components, on POSIX (the separator is code point 47).\<close>

definition path_join :: "pystr \<Rightarrow> pystr \<Rightarrow> pystr" where
  "path_join a b =
     (if b \<noteq> [] \<and> hd b = 47 then b
      else if a = [] \<or> last a = 47 then a @ b
      else a @ [47] @ b)"

section \<open>WAV files and the file system\<close>

text \<open>
  A WAV file as the \<open>wave\<close> module sees it: the three header parameters and the bytes of
  the frames written.
\<close>

record wav =
  nchannels :: nat
  sampwidth :: nat
  framerate :: nat
  frames :: "8 word list"

text \<open>The number of frames recorded in the header when the file is closed.\<close>

definition getnframes :: "wav \<Rightarrow> nat" where
  "getnframes f = length (frames f) div (sampwidth f * nchannels f)"

text \<open>The 16-bit little-endian signed samples of the frame bytes (\<open>struct.unpack('<h', ...)\<close>).\<close>

fun samples :: "8 word list \<Rightarrow> int list" where
  "samples (lo # hi # bs) = sint (word_cat hi lo :: 16 word) # samples bs"
| "samples bs = []"

text \<open>\<open>struct.pack('<h', v)\<close>: two bytes, low byte first; out of range raises.\<close>

definition struct_pack_h :: "int \<Rightarrow> pyexc + 8 word list" where
  "struct_pack_h v =
     (if - 32768 \<le> v \<and> v \<le> 32767
      then Inr [word_of_int v, word_of_int (v div 256)]
      else Inl (PyExc ''struct.error'' (S ''short format requires (-32768) <= number <= 32767'')))"

text \<open>The setters and \<open>writeframes\<close> of \<open>wave.Wave_write\<close>, with the checks they make.\<close>

definition setnchannels :: "nat \<Rightarrow> wav \<Rightarrow> pyexc + wav" where
  "setnchannels n f =
     (if frames f \<noteq> [] then Inl (PyExc ''wave.Error'' (S ''cannot change parameters after starting to write''))
      else if n < 1 then Inl (PyExc ''wave.Error'' (S ''bad # of channels''))
      else Inr (f\<lparr>nchannels := n\<rparr>))"

definition setsampwidth :: "nat \<Rightarrow> wav \<Rightarrow> pyexc + wav" where
  "setsampwidth n f =
     (if frames f \<noteq> [] then Inl (PyExc ''wave.Error'' (S ''cannot change parameters after starting to write''))
      else if n < 1 \<or> 4 < n then Inl (PyExc ''wave.Error'' (S ''bad sample width''))
      else Inr (f\<lparr>sampwidth := n\<rparr>))"

definition setframerate :: "nat \<Rightarrow> wav \<Rightarrow> pyexc + wav" where
  "setframerate n f =
     (if frames f \<noteq> [] then Inl (PyExc ''wave.Error'' (S ''cannot change parameters after starting to write''))
      else if n = 0 then Inl (PyExc ''wave.Error'' (S ''bad frame rate''))
      else Inr (f\<lparr>framerate := n\<rparr>))"

definition writeframes :: "8 word list \<Rightarrow> wav \<Rightarrow> pyexc + wav" where
  "writeframes bs f =
     (if nchannels f = 0 then Inl (PyExc ''wave.Error'' (S ''# channels not specified''))
      else if sampwidth f = 0 then Inl (PyExc ''wave.Error'' (S ''sample width not specified''))
      else if framerate f = 0 then Inl (PyExc ''wave.Error'' (S ''sampling rate not specified''))
      else Inr (f\<lparr>frames := frames f @ bs\<rparr>))"

text \<open>
  The loaded model is outside the repository. \<open>tts_to_file(text, file_path, speed)\<close> is a
  black box that may change the files and either returns (\<open>None\<close>) or raises (\<open>Some e\<close>).
\<close>

type_synonym tts =
  "pystr \<Rightarrow> pystr \<Rightarrow> pyfloat \<Rightarrow> (pystr \<rightharpoonup> wav) \<Rightarrow> pyexc option \<times> (pystr \<rightharpoonup> wav)"

text \<open>
  The two provider entry points, recorded in the order they are entered. The source keeps
  no such record; the model adds it so that which provider a request reached can be stated.
\<close>

datatype call = RealAudio pystr pyfloat | MockAudio pystr

text \<open>
  What a request can observe and change outside the server object: the files, whether
  opening a path for writing raises (and with which exception), and the record of
  provider calls.
\<close>

record world =
  files :: "pystr \<rightharpoonup> wav"
  open_error :: "pystr \<rightharpoonup> pyexc"
  calls :: "call list"

section \<open>The server object\<close>

record server =
  temp_dir :: pystr
  tts_model :: "tts option"

text \<open>
  The handle \<open>self.tts_model\<close> is \<open>None\<close> or a model object; a model object is true in
  \<open>if self.tts_model\<close>, so that test and \<open>is not None\<close> agree.

  \<open>CoquiTTSServer.__init__\<close>: with the library importable (\<open>TTS_AVAILABLE\<close>) the first
  model is loaded, on failure the alternative one, and on a second failure the handle
  stays \<open>None\<close>. \<open>load\<close> is the constructor \<open>TTS(model_name=...)\<close>.
\<close>

definition init_server :: "bool \<Rightarrow> (pystr \<Rightarrow> pyexc + tts) \<Rightarrow> pystr \<Rightarrow> server" where
  "init_server TTS_AVAILABLE load tmp =
     \<lparr>temp_dir = tmp,
      tts_model =
        (if TTS_AVAILABLE then
           (case load (S ''tts_models/en/ljspeech/fast_pitch'') of
              Inr m \<Rightarrow> Some m
            | Inl e \<Rightarrow>
                (case load (S ''tts_models/en/ljspeech/tacotron2-DDC'') of
                   Inr m2 \<Rightarrow> Some m2
                 | Inl e2 \<Rightarrow> None))
         else None)\<rparr>"

subsection \<open>\<open>GET /health\<close>\<close>

record health =
  status :: pystr
  model_loaded :: bool
  cuda_available :: bool
  version :: pystr

definition health_check :: "server \<Rightarrow> health" where
  "health_check srv =
     \<lparr>status = S ''healthy'',
      model_loaded = (tts_model srv \<noteq> None),
      cuda_available = False,
      version = (if tts_model srv \<noteq> None then S ''1.0.0-real'' else S ''1.0.0-mock'')\<rparr>"

section \<open>The two synthesis providers\<close>

text \<open>
  The output paths of lines 146 and 170: the temp directory joined with a name made of a
  fixed prefix, the hash of the text and \<open>.wav\<close>. The speed is not part of either.
\<close>

definition coqui_output_path :: "python \<Rightarrow> server \<Rightarrow> pystr \<Rightarrow> pystr" where
  "coqui_output_path py srv text =
     path_join (temp_dir srv) (S ''coqui_tts_'' @ str_int (py_hash py text) @ S ''.wav'')"

definition mock_output_path :: "python \<Rightarrow> server \<Rightarrow> pystr \<Rightarrow> pystr" where
  "mock_output_path py srv text =
     path_join (temp_dir srv) (S ''mock_tts_'' @ str_int (py_hash py text) @ S ''.wav'')"

text \<open>\<open>wave.open(path, 'w')\<close>: raises when the file cannot be opened, else a fresh writer.\<close>

definition wave_open :: "world \<Rightarrow> pystr \<Rightarrow> pyexc + wav" where
  "wave_open w path =
     (case open_error w path of
        Some e \<Rightarrow> Inl e
      | None \<Rightarrow> Inr \<lparr>nchannels = 0, sampwidth = 0, framerate = 0, frames = []\<rparr>)"

text \<open>The loop \<open>for _ in range(num_samples): wav_file.writeframes(struct.pack('<h', 0))\<close>.\<close>

fun write_silence :: "nat \<Rightarrow> wav \<Rightarrow> pyexc + wav" where
  "write_silence 0 f = Inr f"
| "write_silence (Suc n) f =
     (case struct_pack_h 0 of
        Inl e \<Rightarrow> Inl e
      | Inr bs \<Rightarrow>
          (case writeframes bs f of
             Inl e \<Rightarrow> Inl e
           | Inr f' \<Rightarrow> write_silence n f'))"

text \<open>The body of the \<open>with\<close> block of \<open>generate_mock_audio\<close>.\<close>

definition write_wav_body :: "nat \<Rightarrow> nat \<Rightarrow> wav \<Rightarrow> pyexc + wav" where
  "write_wav_body sample_rate num_samples f0 =
     (case setnchannels 1 f0 of
        Inl e \<Rightarrow> Inl e
      | Inr f1 \<Rightarrow>
          (case setsampwidth 2 f1 of
             Inl e \<Rightarrow> Inl e
           | Inr f2 \<Rightarrow>
               (case setframerate sample_rate f2 of
                  Inl e \<Rightarrow> Inl e
                | Inr f3 \<Rightarrow> write_silence num_samples f3)))"

text \<open>
  \<open>generate_mock_audio(text)\<close>. Every exception is logged and raised again (\<open>Inl\<close>). When
  the \<open>with\<close> block raises after the file was opened, the file stays behind as opened.
\<close>

definition generate_mock_audio ::
  "python \<Rightarrow> server \<Rightarrow> pystr \<Rightarrow> world \<Rightarrow> (pyexc + pystr) \<times> world" where
  "generate_mock_audio py srv text w =
     (let w1 = w\<lparr>calls := calls w @ [MockAudio text]\<rparr>;
          output_path = mock_output_path py srv text;
          sample_rate = 22050;
          duration = (1.0 :: real);
          num_samples = nat (floor (real sample_rate * duration))
      in case wave_open w1 output_path of
           Inl e \<Rightarrow> (Inl e, w1)
         | Inr f0 \<Rightarrow>
             (case write_wav_body sample_rate num_samples f0 of
                Inl e \<Rightarrow> (Inl e, w1\<lparr>files := (files w1)(output_path \<mapsto> f0)\<rparr>)
              | Inr f \<Rightarrow> (Inr output_path, w1\<lparr>files := (files w1)(output_path \<mapsto> f)\<rparr>)))"

text \<open>
  \<open>generate_real_audio(text, speed)\<close>. Any exception of the model call (also the
  \<open>AttributeError\<close> of calling it on \<open>None\<close>) is caught and answered with
  \<open>generate_mock_audio(text)\<close>.
\<close>

definition generate_real_audio ::
  "python \<Rightarrow> server \<Rightarrow> pystr \<Rightarrow> pyfloat \<Rightarrow> world \<Rightarrow> (pyexc + pystr) \<times> world" where
  "generate_real_audio py srv text speed w =
     (let w1 = w\<lparr>calls := calls w @ [RealAudio text speed]\<rparr>;
          output_path = coqui_output_path py srv text
      in case tts_model srv of
           None \<Rightarrow> generate_mock_audio py srv text w1
         | Some tts_to_file \<Rightarrow>
             (case tts_to_file text output_path speed (files w1) of
                (None, fs) \<Rightarrow> (Inr output_path, w1\<lparr>files := fs\<rparr>)
              | (Some e, fs) \<Rightarrow> generate_mock_audio py srv text (w1\<lparr>files := fs\<rparr>)))"

section \<open>\<open>POST /api/tts\<close>\<close>

text \<open>
  The request, as far as the handler reads it: what \<open>request.get_json()\<close> does. It
  returns the parsed body (\<open>None\<close> for the body \<open>null\<close>), or it raises: on a request
  without a JSON body the framework raises here, inside the \<open>try\<close> block.
\<close>

record request =
  get_json :: "pyexc + json"

text \<open>
  A response: the file streamed by \<open>send_file\<close> (status 200), with its path, its
  content, the MIME type and the download name, or \<open>jsonify({'error': msg}), code\<close>.
\<close>

datatype response =
    SendFile pystr wav pystr pystr
  | JsonError pystr nat

fun status_code :: "response \<Rightarrow> nat" where
  "status_code (SendFile p f m n) = 200"
| "status_code (JsonError msg code) = code"

definition path_exists :: "world \<Rightarrow> pystr \<Rightarrow> bool" where
  "path_exists w p = (files w p \<noteq> None)"

definition send_file :: "world \<Rightarrow> pystr \<Rightarrow> pystr \<Rightarrow> pystr \<Rightarrow> pyexc + response" where
  "send_file w p mimetype download_name =
     (case files w p of
        None \<Rightarrow> Inl (PyExc ''FileNotFoundError'' p)
      | Some f \<Rightarrow> Inr (SendFile p f mimetype download_name))"

text \<open>
  The \<open>try\<close> block of \<open>synthesize_speech\<close> (lines 98 to 127); \<open>Inl\<close> is an exception that
  leaves the block. Line 117 stands in the file at the indentation of its \<open>else:\<close>; it is
  the only statement after that \<open>else:\<close> and is taken as its block. Logging is left out.
\<close>

definition synthesize_speech_try ::
  "python \<Rightarrow> server \<Rightarrow> request \<Rightarrow> world \<Rightarrow> (pyexc + response) \<times> world" where
  "synthesize_speech_try py srv req w =
     (case get_json req of
        Inl e \<Rightarrow> (Inl e, w)
      | Inr data \<Rightarrow>
     if \<not> truthy data then (Inr (JsonError (S ''Missing text parameter'') 400), w)
     else
     (case py_in (S ''text'') data of
        Inl e \<Rightarrow> (Inl e, w)
      | Inr has_text \<Rightarrow>
     if \<not> has_text then (Inr (JsonError (S ''Missing text parameter'') 400), w)
     else
     (case py_getitem data (S ''text'') of
        Inl e \<Rightarrow> (Inl e, w)
      | Inr v \<Rightarrow>
     (case py_strip v of
        Inl e \<Rightarrow> (Inl e, w)
      | Inr text \<Rightarrow>
     if text = [] then (Inr (JsonError (S ''Empty text'') 400), w)
     else
     (case py_get data (S ''language'') (JString (S ''en'')) of
        Inl e \<Rightarrow> (Inl e, w)
      | Inr language \<Rightarrow>
     (case py_get data (S ''speed'') (JFloat (Fin 1)) of
        Inl e \<Rightarrow> (Inl e, w)
      | Inr sv \<Rightarrow>
     (case py_float py sv of
        Inl e \<Rightarrow> (Inl e, w)
      | Inr speed \<Rightarrow>
     (case (if tts_model srv \<noteq> None
            then generate_real_audio py srv text speed w
            else generate_mock_audio py srv text w) of
        (Inl e, w') \<Rightarrow> (Inl e, w')
      | (Inr audio_path, w') \<Rightarrow>
     if audio_path = [] \<or> \<not> path_exists w' audio_path
     then (Inr (JsonError (S ''Failed to generate speech'') 500), w')
     else (send_file w' audio_path (S ''audio/wav'') (S ''speech.wav''), w')))))))))"

text \<open>
  \<open>synthesize_speech\<close>: the \<open>try\<close> block under \<open>except Exception as e\<close>, which answers
  \<open>jsonify({'error': str(e)}), 500\<close>.
\<close>

definition synthesize_speech ::
  "python \<Rightarrow> server \<Rightarrow> request \<Rightarrow> world \<Rightarrow> response \<times> world" where
  "synthesize_speech py srv req w =
     (case synthesize_speech_try py srv req w of
        (Inl e, w') \<Rightarrow> (JsonError (exc_str e) 500, w')
      | (Inr resp, w') \<Rightarrow> (resp, w'))"

section \<open>Concrete inputs\<close>

text \<open>
  A runtime, two models, servers, requests and worlds on which the theorems below are
  instantiated. \<open>example_python\<close> hashes a text to its length and converts no string to a
  float; \<open>raising_tts\<close> always raises; \<open>speed_tts\<close> writes a one-frame file whose sample
  depends on the speed. \<open>null_body_request\<close> carries the JSON body \<open>null\<close>, for which
  \<open>get_json()\<close> returns \<open>None\<close>; \<open>absent_body_request\<close> and \<open>no_json_request\<close> carry no
  JSON body, and \<open>get_json()\<close> raises on them; \<open>number_body_request\<close> and
  \<open>true_body_request\<close> carry the JSON bodies \<open>5\<close> and \<open>true\<close>.
\<close>

definition example_python :: python where
  "example_python =
     \<lparr>py_hash = (\<lambda>t. int (length t)),
      float_of_str = (\<lambda>s. Inl (PyExc ''ValueError'' (S ''could not convert string to float''))),
      float_of_int = (\<lambda>n. Inr (Fin (of_int n)))\<rparr>"

definition raising_tts :: tts where
  "raising_tts = (\<lambda>text path speed fs. (Some (PyExc ''RuntimeError'' (S ''model failure'')), fs))"

definition speed_tts :: tts where
  "speed_tts =
     (\<lambda>text path speed fs.
        (None, fs(path \<mapsto> \<lparr>nchannels = 1, sampwidth = 2, framerate = 22050,
                            frames = (if speed = Fin 1 then [1, 0] else [2, 0])\<rparr>)))"

definition mock_server :: server where
  "mock_server = \<lparr>temp_dir = S ''/tmp/tmpk3'', tts_model = None\<rparr>"

definition raising_server :: server where
  "raising_server = \<lparr>temp_dir = S ''/tmp/tmpk3'', tts_model = Some raising_tts\<rparr>"

definition real_server :: server where
  "real_server = \<lparr>temp_dir = S ''/tmp/tmpk3'', tts_model = Some speed_tts\<rparr>"

definition hello_request :: request where
  "hello_request = \<lparr>get_json = Inr (JObject [(S ''text'', JString (S ''Hello''))])\<rparr>"

definition hello_fast_request :: request where
  "hello_fast_request =
     \<lparr>get_json = Inr (JObject [(S ''text'', JString (S ''Hello'')), (S ''speed'', JInt 2)])\<rparr>"


definition number_request :: request where
  "number_request = \<lparr>get_json = Inr (JObject [(S ''text'', JInt 5)])\<rparr>"

definition bad_speed_request :: request where
  "bad_speed_request =
     \<lparr>get_json = Inr (JObject [(S ''text'', JString (S ''Hello'')), (S ''speed'', JString (S ''fast''))])\<rparr>"







definition speed_only_request :: request where
  "speed_only_request = \<lparr>get_json = Inr (JObject [(S ''speed'', JString (S ''fast''))])\<rparr>"

definition empty_world :: world where
  "empty_world = \<lparr>files = Map.empty, open_error = Map.empty, calls = []\<rparr>"

definition unwritable_world :: world where
  "unwritable_world =
     \<lparr>files = Map.empty,
      open_error = (\<lambda>p. Some (PyExc ''PermissionError'' (S ''Permission denied''))),
      calls = []\<rparr>"

section \<open>Auxiliary facts\<close>

lemma write_silence_frames:
  "nchannels f \<noteq> 0 \<Longrightarrow> sampwidth f \<noteq> 0 \<Longrightarrow> framerate f \<noteq> 0 \<Longrightarrow>
   write_silence n f = Inr (f\<lparr>frames := frames f @ replicate (2 * n) 0\<rparr>)"
proof (induction n arbitrary: f)
  case 0
  then show ?case by simp
next
  case (Suc n)
  have pk: "struct_pack_h 0 = Inr [0, 0]"
    by (simp add: struct_pack_h_def)
  have wf: "writeframes [0, 0] f = Inr (f\<lparr>frames := frames f @ [0, 0]\<rparr>)"
    using Suc.prems by (simp add: writeframes_def)
  have "write_silence (Suc n) f = write_silence n (f\<lparr>frames := frames f @ [0, 0]\<rparr>)"
    by (simp add: pk wf)
  also have "\<dots> = Inr (f\<lparr>frames := (frames f @ [0, 0]) @ replicate (2 * n) 0\<rparr>)"
    using Suc.prems by (simp add: Suc.IH)
  finally show ?case by (simp add: replicate_app_Cons_same)
qed

lemma samples_zero: "samples (replicate (2 * n) 0) = replicate n 0"
  by (induction n) simp_all

lemma write_wav_body_silence:
  "write_wav_body 22050 n \<lparr>nchannels = 0, sampwidth = 0, framerate = 0, frames = []\<rparr> =
     Inr \<lparr>nchannels = 1, sampwidth = 2, framerate = 22050, frames = replicate (2 * n) 0\<rparr>"
  by (simp add: write_wav_body_def setnchannels_def setsampwidth_def setframerate_def
      write_silence_frames)

lemma generate_mock_audio_ok:
  assumes "open_error w (mock_output_path py srv text) = None"
  shows "generate_mock_audio py srv text w =
           (Inr (mock_output_path py srv text),
            w\<lparr>calls := calls w @ [MockAudio text],
              files := (files w)(mock_output_path py srv text \<mapsto>
                \<lparr>nchannels = 1, sampwidth = 2, framerate = 22050, frames = replicate 44100 0\<rparr>)\<rparr>)"
proof -
  have body: "write_wav_body 22050 22050
                \<lparr>nchannels = 0, sampwidth = 0, framerate = 0, frames = []\<rparr> =
              Inr \<lparr>nchannels = 1, sampwidth = 2, framerate = 22050, frames = replicate 44100 0\<rparr>"
    using write_wav_body_silence [of 22050] by simp
  show ?thesis
    using assms by (simp add: generate_mock_audio_def wave_open_def body Let_def)
qed

lemma generate_mock_audio_raises:
  assumes "open_error w (mock_output_path py srv text) = Some e"
  shows "generate_mock_audio py srv text w = (Inl e, w\<lparr>calls := calls w @ [MockAudio text]\<rparr>)"
  using assms by (simp add: generate_mock_audio_def wave_open_def Let_def)

lemma generate_mock_audio_calls:
  "calls (snd (generate_mock_audio py srv text w)) = calls w @ [MockAudio text]"
proof (cases "open_error w (mock_output_path py srv text)")
  case None
  then show ?thesis by (simp add: generate_mock_audio_ok)
next
  case (Some e)
  then show ?thesis by (simp add: generate_mock_audio_raises)
qed

lemma generate_real_audio_ok:
  assumes "tts_model srv = Some m"
      and "m text (coqui_output_path py srv text) speed (files w) = (None, fs)"
  shows "generate_real_audio py srv text speed w =
           (Inr (coqui_output_path py srv text),
            w\<lparr>calls := calls w @ [RealAudio text speed], files := fs\<rparr>)"
  using assms by (simp add: generate_real_audio_def Let_def)

lemma generate_real_audio_fallback:
  assumes "tts_model srv = Some m"
      and "m text (coqui_output_path py srv text) speed (files w) = (Some e, fs)"
  shows "generate_real_audio py srv text speed w =
           generate_mock_audio py srv text
             (w\<lparr>calls := calls w @ [RealAudio text speed], files := fs\<rparr>)"
  using assms by (simp add: generate_real_audio_def Let_def)

text \<open>A request that passes the two validations reaches the provider call of line 112.\<close>

lemma synthesize_speech_try_valid:
  assumes "get_json req = Inr (JObject kvs)"
      and "map_of kvs (S ''text'') = Some (JString s)"
      and "strip s \<noteq> []"
      and "py_float py (case map_of kvs (S ''speed'') of Some v \<Rightarrow> v | None \<Rightarrow> JFloat (Fin 1))
             = Inr speed"
  shows "synthesize_speech_try py srv req w =
           (case (if tts_model srv \<noteq> None
                  then generate_real_audio py srv (strip s) speed w
                  else generate_mock_audio py srv (strip s) w) of
              (Inl e, w') \<Rightarrow> (Inl e, w')
            | (Inr audio_path, w') \<Rightarrow>
                if audio_path = [] \<or> \<not> path_exists w' audio_path
                then (Inr (JsonError (S ''Failed to generate speech'') 500), w')
                else (send_file w' audio_path (S ''audio/wav'') (S ''speech.wav''), w'))"
proof -
  have mem: "(S ''text'', JString s) \<in> set kvs"
    using assms(2) by (rule map_of_SomeD)
  then have ne: "kvs \<noteq> []" by auto
  have key: "S ''text'' \<in> fst ` set kvs"
    using mem by force
  show ?thesis
    using assms ne key by (simp add: synthesize_speech_try_def)
qed

lemma mock_output_path_nonempty: "mock_output_path py srv text \<noteq> []"
  by (simp add: mock_output_path_def path_join_def S_def)

lemma coqui_output_path_nonempty: "coqui_output_path py srv text \<noteq> []"
  by (simp add: coqui_output_path_def path_join_def S_def)

lemma prefixes_differ: "S ''coqui_tts_'' @ x \<noteq> S ''mock_tts_'' @ y"
  by (simp add: S_def)

text \<open>What can leave the \<open>try\<close> block of the handler.\<close>

lemma synthesize_speech_try_shape:
  "synthesize_speech_try py srv req w = (r, w') \<Longrightarrow>
     (\<exists>e. r = Inl e)
     \<or> (\<exists>p f. r = Inr (SendFile p f (S ''audio/wav'') (S ''speech.wav'')))
     \<or> (\<exists>msg. r = Inr (JsonError msg 400))
     \<or> (\<exists>msg. r = Inr (JsonError msg 500))"
  by (cases r)
     (auto simp: synthesize_speech_try_def send_file_def
           split: sum.splits prod.splits option.splits if_splits)

lemma generate_real_audio_calls:
  assumes "tts_model srv = Some m"
  shows "calls (snd (generate_real_audio py srv text speed w)) =
           calls w @ RealAudio text speed #
             (case fst (m text (coqui_output_path py srv text) speed (files w)) of
                None \<Rightarrow> []
              | Some e \<Rightarrow> [MockAudio text])"
proof (cases "m text (coqui_output_path py srv text) speed (files w)")
  case (Pair r fs)
  show ?thesis
  proof (cases r)
    case None
    with Pair assms show ?thesis
      by (simp add: generate_real_audio_ok)
  next
    case (Some e)
    with Pair assms show ?thesis
      by (simp add: generate_real_audio_fallback generate_mock_audio_calls)
  qed
qed

lemma synthesize_speech_world:
  assumes "get_json req = Inr (JObject kvs)"
      and "map_of kvs (S ''text'') = Some (JString s)"
      and "strip s \<noteq> []"
      and "py_float py (case map_of kvs (S ''speed'') of Some v \<Rightarrow> v | None \<Rightarrow> JFloat (Fin 1))
             = Inr speed"
  shows "snd (synthesize_speech py srv req w) =
           snd (if tts_model srv \<noteq> None
                then generate_real_audio py srv (strip s) speed w
                else generate_mock_audio py srv (strip s) w)"
  by (simp add: synthesize_speech_def synthesize_speech_try_valid [OF assms]
           split: prod.splits sum.splits)

lemma strip_Hello: "strip (S ''Hello'') = S ''Hello''"
  by (simp add: strip_def S_def py_isspace_def)


lemma silent_file_props:
  "getnframes \<lparr>nchannels = 1, sampwidth = 2, framerate = 22050, frames = replicate 44100 0\<rparr> = 22050
   \<and> samples (replicate 44100 0) = replicate 22050 0"
proof -
  have "samples (replicate (2 * 22050) 0) = replicate 22050 0"
    by (rule samples_zero)
  then show ?thesis by (simp add: getnframes_def)
qed

text \<open>A valid request served by the silence provider, when the file can be opened.\<close>

lemma synthesize_speech_mock_ok:
  assumes "get_json req = Inr (JObject kvs)"
      and "map_of kvs (S ''text'') = Some (JString s)"
      and "strip s \<noteq> []"
      and "py_float py (case map_of kvs (S ''speed'') of Some v \<Rightarrow> v | None \<Rightarrow> JFloat (Fin 1))
             = Inr speed"
      and "tts_model srv = None"
      and "open_error w (mock_output_path py srv (strip s)) = None"
  shows "synthesize_speech py srv req w =
           (SendFile (mock_output_path py srv (strip s))
              \<lparr>nchannels = 1, sampwidth = 2, framerate = 22050, frames = replicate 44100 0\<rparr>
              (S ''audio/wav'') (S ''speech.wav''),
            w\<lparr>calls := calls w @ [MockAudio (strip s)],
              files := (files w)(mock_output_path py srv (strip s) \<mapsto>
                \<lparr>nchannels = 1, sampwidth = 2, framerate = 22050, frames = replicate 44100 0\<rparr>)\<rparr>)"
  using assms(5,6)
  by (simp add: synthesize_speech_def synthesize_speech_try_valid [OF assms(1-4)]
        generate_mock_audio_ok mock_output_path_nonempty path_exists_def send_file_def)


text \<open>A valid request whose model call raises: the answer is that of the silence provider.\<close>

lemma synthesize_speech_fallback_ok:
  assumes "get_json req = Inr (JObject kvs)"
      and "map_of kvs (S ''text'') = Some (JString s)"
      and "strip s \<noteq> []"
      and "py_float py (case map_of kvs (S ''speed'') of Some v \<Rightarrow> v | None \<Rightarrow> JFloat (Fin 1))
             = Inr speed"
      and "tts_model srv = Some m"
      and "m (strip s) (coqui_output_path py srv (strip s)) speed (files w) = (Some e, fs)"
      and "open_error w (mock_output_path py srv (strip s)) = None"
  shows "synthesize_speech py srv req w =
           (SendFile (mock_output_path py srv (strip s))
              \<lparr>nchannels = 1, sampwidth = 2, framerate = 22050, frames = replicate 44100 0\<rparr>
              (S ''audio/wav'') (S ''speech.wav''),
            w\<lparr>calls := calls w @ [RealAudio (strip s) speed, MockAudio (strip s)],
              files := fs(mock_output_path py srv (strip s) \<mapsto>
                \<lparr>nchannels = 1, sampwidth = 2, framerate = 22050, frames = replicate 44100 0\<rparr>)\<rparr>)"
  using assms(5,7)
  by (simp add: synthesize_speech_def synthesize_speech_try_valid [OF assms(1-4)]
        generate_real_audio_fallback [OF assms(5,6)]
        generate_mock_audio_ok mock_output_path_nonempty path_exists_def send_file_def)

lemma synthesize_speech_fallback_raises:
  assumes "get_json req = Inr (JObject kvs)"
      and "map_of kvs (S ''text'') = Some (JString s)"
      and "strip s \<noteq> []"
      and "py_float py (case map_of kvs (S ''speed'') of Some v \<Rightarrow> v | None \<Rightarrow> JFloat (Fin 1))
             = Inr speed"
      and "tts_model srv = Some m"
      and "m (strip s) (coqui_output_path py srv (strip s)) speed (files w) = (Some e, fs)"
      and "open_error w (mock_output_path py srv (strip s)) = Some e'"
  shows "synthesize_speech py srv req w =
           (JsonError (exc_str e') 500,
            w\<lparr>calls := calls w @ [RealAudio (strip s) speed, MockAudio (strip s)], files := fs\<rparr>)"
  using assms(5,7)
  by (simp add: synthesize_speech_def synthesize_speech_try_valid [OF assms(1-4)]
        generate_real_audio_fallback [OF assms(5,6)] generate_mock_audio_raises)

text \<open>A valid request whose model call returns and leaves a file at the derived path.\<close>

lemma synthesize_speech_real_ok:
  assumes "get_json req = Inr (JObject kvs)"
      and "map_of kvs (S ''text'') = Some (JString s)"
      and "strip s \<noteq> []"
      and "py_float py (case map_of kvs (S ''speed'') of Some v \<Rightarrow> v | None \<Rightarrow> JFloat (Fin 1))
             = Inr speed"
      and "tts_model srv = Some m"
      and "m (strip s) (coqui_output_path py srv (strip s)) speed (files w) = (None, fs)"
      and "fs (coqui_output_path py srv (strip s)) = Some f"
  shows "synthesize_speech py srv req w =
           (SendFile (coqui_output_path py srv (strip s)) f (S ''audio/wav'') (S ''speech.wav''),
            w\<lparr>calls := calls w @ [RealAudio (strip s) speed], files := fs\<rparr>)"
  using assms(5,7)
  by (simp add: synthesize_speech_def synthesize_speech_try_valid [OF assms(1-4)]
        generate_real_audio_ok [OF assms(5,6)]
        coqui_output_path_nonempty path_exists_def send_file_def)

text \<open>The derived paths on the concrete inputs.\<close>

lemma example_paths:
  "mock_output_path example_python mock_server (S ''Hello'') = S ''/tmp/tmpk3/mock_tts_5.wav''"
  "mock_output_path example_python raising_server (S ''Hello'') = S ''/tmp/tmpk3/mock_tts_5.wav''"
  "coqui_output_path example_python real_server (S ''Hello'') = S ''/tmp/tmpk3/coqui_tts_5.wav''"
  by (simp_all add: mock_output_path_def coqui_output_path_def path_join_def str_int_def
        nat_digits.simps example_python_def mock_server_def raising_server_def
        real_server_def S_def)

section \<open>The claims\<close>

text \<open>
  Claim C1. For a valid synthesis request (a JSON object whose \<open>text\<close> is a string that is
  not empty after stripping, and whose \<open>speed\<close>, when present, converts to a float) the
  handler changes the world exactly as one provider call does: \<open>generate_real_audio\<close> with
  the stripped text and the speed when a model handle is held, \<open>generate_mock_audio\<close> with
  the stripped text when none is held. The record of provider calls grows accordingly:
  without a handle by the one silence call, with a handle by the model-backed call,
  followed by the silence call only when the model raised. Nothing but the handle decides.
\<close>

theorem provider_selected_by_model_handle:
  assumes "get_json req = Inr (JObject kvs)"
      and "map_of kvs (S ''text'') = Some (JString s)"
      and "strip s \<noteq> []"
      and "py_float py (case map_of kvs (S ''speed'') of Some v \<Rightarrow> v | None \<Rightarrow> JFloat (Fin 1))
             = Inr speed"
  shows "snd (synthesize_speech py srv req w) =
           (case tts_model srv of
              Some m \<Rightarrow> snd (generate_real_audio py srv (strip s) speed w)
            | None \<Rightarrow> snd (generate_mock_audio py srv (strip s) w))
         \<and> calls (snd (synthesize_speech py srv req w)) =
             calls w @
               (case tts_model srv of
                  Some m \<Rightarrow>
                    RealAudio (strip s) speed #
                      (case fst (m (strip s) (coqui_output_path py srv (strip s)) speed (files w)) of
                         None \<Rightarrow> []
                       | Some e \<Rightarrow> [MockAudio (strip s)])
                | None \<Rightarrow> [MockAudio (strip s)])"
proof (cases "tts_model srv")
  case None
  then show ?thesis
    by (simp add: synthesize_speech_world [OF assms] generate_mock_audio_calls)
next
  case (Some m)
  then show ?thesis
    by (simp add: synthesize_speech_world [OF assms] generate_real_audio_calls)
qed

theorem provider_selected_by_model_handle_witness:
  "get_json hello_fast_request =
     Inr (JObject [(S ''text'', JString (S ''Hello'')), (S ''speed'', JInt 2)])
   \<and> strip (S ''Hello'') \<noteq> []
   \<and> calls (snd (synthesize_speech example_python real_server hello_fast_request empty_world)) =
       [RealAudio (S ''Hello'') (Fin 2)]
   \<and> get_json hello_request = Inr (JObject [(S ''text'', JString (S ''Hello''))])
   \<and> calls (snd (synthesize_speech example_python mock_server hello_request empty_world)) =
       [MockAudio (S ''Hello'')]"
proof -
  let ?kf = "[(S ''text'', JString (S ''Hello'')), (S ''speed'', JInt 2)]"
  let ?kh = "[(S ''text'', JString (S ''Hello''))]"
  have ne: "S ''speed'' \<noteq> S ''text''"
    by (simp add: S_def)
  have f1: "get_json hello_fast_request = Inr (JObject ?kf)"
    by (simp add: hello_fast_request_def)
  have f2: "map_of ?kf (S ''text'') = Some (JString (S ''Hello''))"
    by simp
  have f3: "strip (S ''Hello'') \<noteq> []"
    unfolding strip_Hello by (simp add: S_def)
  have f4: "py_float example_python
              (case map_of ?kf (S ''speed'') of Some v \<Rightarrow> v | None \<Rightarrow> JFloat (Fin 1)) = Inr (Fin 2)"
    using ne by (simp add: example_python_def)
  have h1: "get_json hello_request = Inr (JObject ?kh)"
    by (simp add: hello_request_def)
  have h2: "map_of ?kh (S ''text'') = Some (JString (S ''Hello''))"
    by simp
  have h4: "py_float example_python
              (case map_of ?kh (S ''speed'') of Some v \<Rightarrow> v | None \<Rightarrow> JFloat (Fin 1)) = Inr (Fin 1)"
    using ne by simp
  have m1: "tts_model real_server = Some speed_tts"
    by (simp add: real_server_def)
  have m2: "fst (speed_tts (S ''Hello'')
                  (coqui_output_path example_python real_server (S ''Hello'')) (Fin 2)
                  (files empty_world)) = None"
    by (simp add: speed_tts_def)
  have m3: "tts_model mock_server = None"
    by (simp add: mock_server_def)
  have cw: "calls empty_world = []"
    by (simp add: empty_world_def)
  have a: "calls (snd (synthesize_speech example_python real_server hello_fast_request empty_world)) =
       [RealAudio (S ''Hello'') (Fin 2)]"
    using provider_selected_by_model_handle [OF f1 f2 f3 f4, of real_server empty_world, THEN conjunct2]
    by (simp add: strip_Hello m1 m2 cw)
  have b: "calls (snd (synthesize_speech example_python mock_server hello_request empty_world)) =
       [MockAudio (S ''Hello'')]"
    using provider_selected_by_model_handle [OF h1 h2 f3 h4, of mock_server empty_world, THEN conjunct2]
    by (simp add: strip_Hello m3 cw)
  from f1 f3 a h1 b show ?thesis by blast
qed




text \<open>
  Claim C3, as the code has it. For a valid request whose model call raises, the handler
  runs the silence provider for the same text. When that provider can open its file the
  request succeeds: status 200 with the one-second silent WAV. When it cannot, the answer
  is 500 and carries the silence provider's exception, so the model's exception is in no
  case what the caller is told.
\<close>

theorem model_failure_falls_back_to_silence:
  assumes "get_json req = Inr (JObject kvs)"
      and "map_of kvs (S ''text'') = Some (JString s)"
      and "strip s \<noteq> []"
      and "py_float py (case map_of kvs (S ''speed'') of Some v \<Rightarrow> v | None \<Rightarrow> JFloat (Fin 1))
             = Inr speed"
      and "tts_model srv = Some m"
      and "m (strip s) (coqui_output_path py srv (strip s)) speed (files w) = (Some e, fs)"
  shows "calls (snd (synthesize_speech py srv req w)) =
           calls w @ [RealAudio (strip s) speed, MockAudio (strip s)]
         \<and> (open_error w (mock_output_path py srv (strip s)) = None \<longrightarrow>
              fst (synthesize_speech py srv req w) =
                SendFile (mock_output_path py srv (strip s))
                  \<lparr>nchannels = 1, sampwidth = 2, framerate = 22050, frames = replicate 44100 0\<rparr>
                  (S ''audio/wav'') (S ''speech.wav'')
              \<and> status_code (fst (synthesize_speech py srv req w)) = 200)
         \<and> (\<forall>e'. open_error w (mock_output_path py srv (strip s)) = Some e' \<longrightarrow>
              fst (synthesize_speech py srv req w) = JsonError (exc_str e') 500)"
proof (cases "open_error w (mock_output_path py srv (strip s))")
  case None
  then show ?thesis
    by (simp add: synthesize_speech_fallback_ok [OF assms None])
next
  case (Some e')
  then show ?thesis
    by (simp add: synthesize_speech_fallback_raises [OF assms Some])
qed

theorem model_failure_falls_back_to_silence_witness:
  "get_json hello_fast_request =
     Inr (JObject [(S ''text'', JString (S ''Hello'')), (S ''speed'', JInt 2)])
   \<and> tts_model raising_server = Some raising_tts
   \<and> fst (raising_tts (S ''Hello'')
            (coqui_output_path example_python raising_server (S ''Hello'')) (Fin 2)
            (files empty_world)) = Some (PyExc ''RuntimeError'' (S ''model failure''))
   \<and> open_error empty_world (mock_output_path example_python raising_server (S ''Hello'')) = None
   \<and> calls (snd (synthesize_speech example_python raising_server hello_fast_request empty_world)) =
       [RealAudio (S ''Hello'') (Fin 2), MockAudio (S ''Hello'')]
   \<and> fst (synthesize_speech example_python raising_server hello_fast_request empty_world) =
       SendFile (S ''/tmp/tmpk3/mock_tts_5.wav'')
         \<lparr>nchannels = 1, sampwidth = 2, framerate = 22050, frames = replicate 44100 0\<rparr>
         (S ''audio/wav'') (S ''speech.wav'')
   \<and> status_code (fst (synthesize_speech example_python raising_server hello_fast_request empty_world)) = 200
   \<and> open_error unwritable_world (mock_output_path example_python raising_server (S ''Hello'')) =
       Some (PyExc ''PermissionError'' (S ''Permission denied''))
   \<and> fst (synthesize_speech example_python raising_server hello_fast_request unwritable_world) =
       JsonError (S ''Permission denied'') 500"
proof -
  let ?kf = "[(S ''text'', JString (S ''Hello'')), (S ''speed'', JInt 2)]"
  have ne: "S ''speed'' \<noteq> S ''text''"
    by (simp add: S_def)
  have f1: "get_json hello_fast_request = Inr (JObject ?kf)"
    by (simp add: hello_fast_request_def)
  have f2: "map_of ?kf (S ''text'') = Some (JString (S ''Hello''))"
    by simp
  have f3: "strip (S ''Hello'') \<noteq> []"
    unfolding strip_Hello by (simp add: S_def)
  have f4: "py_float example_python
              (case map_of ?kf (S ''speed'') of Some v \<Rightarrow> v | None \<Rightarrow> JFloat (Fin 1)) = Inr (Fin 2)"
    using ne by (simp add: example_python_def)
  have m: "tts_model raising_server = Some raising_tts"
    by (simp add: raising_server_def)
  have r1: "raising_tts (strip (S ''Hello''))
             (coqui_output_path example_python raising_server (strip (S ''Hello''))) (Fin 2)
             (files empty_world) =
           (Some (PyExc ''RuntimeError'' (S ''model failure'')), files empty_world)"
    by (simp add: raising_tts_def)
  have r2: "raising_tts (strip (S ''Hello''))
             (coqui_output_path example_python raising_server (strip (S ''Hello''))) (Fin 2)
             (files unwritable_world) =
           (Some (PyExc ''RuntimeError'' (S ''model failure'')), files unwritable_world)"
    by (simp add: raising_tts_def)
  have o1: "open_error empty_world
              (mock_output_path example_python raising_server (S ''Hello'')) = None"
    by (simp add: empty_world_def)
  have o2: "open_error unwritable_world
              (mock_output_path example_python raising_server (S ''Hello'')) =
            Some (PyExc ''PermissionError'' (S ''Permission denied''))"
    by (simp add: unwritable_world_def)
  have c1: "calls empty_world = []"
    by (simp add: empty_world_def)
  from model_failure_falls_back_to_silence [OF f1 f2 f3 f4 m r1]
       model_failure_falls_back_to_silence [OF f1 f2 f3 f4 m r2]
       f1 m r1 r2 o1 o2 c1
  show ?thesis
    by (simp add: strip_Hello example_paths)
qed

text \<open>
  Counterexample to claim C3 as written, which promises status 200 for every valid
  request whose model call raises. With a temp directory that cannot be written the same request is answered 500.
\<close>

theorem model_failure_with_unwritable_temp_dir:
  "get_json hello_request = Inr (JObject [(S ''text'', JString (S ''Hello''))])
   \<and> strip (S ''Hello'') = S ''Hello''
   \<and> tts_model raising_server = Some raising_tts
   \<and> fst (raising_tts (S ''Hello'')
            (coqui_output_path example_python raising_server (S ''Hello'')) (Fin 1)
            (files unwritable_world)) = Some (PyExc ''RuntimeError'' (S ''model failure''))
   \<and> fst (synthesize_speech example_python raising_server hello_request unwritable_world) =
       JsonError (S ''Permission denied'') 500"
proof -
  let ?kh = "[(S ''text'', JString (S ''Hello''))]"
  have h1: "get_json hello_request = Inr (JObject ?kh)"
    by (simp add: hello_request_def)
  have h2: "map_of ?kh (S ''text'') = Some (JString (S ''Hello''))"
    by simp
  have h3: "strip (S ''Hello'') \<noteq> []"
    unfolding strip_Hello by (simp add: S_def)
  have ne: "S ''speed'' \<noteq> S ''text''"
    by (simp add: S_def)
  have h4: "py_float example_python
              (case map_of ?kh (S ''speed'') of Some v \<Rightarrow> v | None \<Rightarrow> JFloat (Fin 1)) = Inr (Fin 1)"
    using ne by simp
  have m: "tts_model raising_server = Some raising_tts"
    by (simp add: raising_server_def)
  have r: "raising_tts (strip (S ''Hello''))
             (coqui_output_path example_python raising_server (strip (S ''Hello''))) (Fin 1)
             (files unwritable_world) =
           (Some (PyExc ''RuntimeError'' (S ''model failure'')), files unwritable_world)"
    by (simp add: raising_tts_def)
  have o: "open_error unwritable_world
             (mock_output_path example_python raising_server (strip (S ''Hello''))) =
           Some (PyExc ''PermissionError'' (S ''Permission denied''))"
    by (simp add: unwritable_world_def)
  have "fst (synthesize_speech example_python raising_server hello_request unwritable_world) =
       JsonError (S ''Permission denied'') 500"
    by (simp add: synthesize_speech_fallback_raises [OF h1 h2 h3 h4 m r o])
  with h1 m r strip_Hello show ?thesis
    by simp
qed

text \<open>
  Claim C4. Whenever the output file can be opened, the silence provider, for every
  text, returns its derived path and leaves there a WAV file with 1 channel, sample
  width 2 bytes (16 bit), frame rate 22050 and exactly 22050 frames, all of whose
  samples are zero: one second of silence. It takes no speed. Through the handler, a
  valid request with any speed, served without a model, is answered 200 with exactly
  that file; the instance below is \<open>POST /api/tts {"text": "Hello"}\<close>.
\<close>

theorem silence_provider_writes_one_second_of_silence:
  assumes "open_error w (mock_output_path py srv text) = None"
  shows "\<exists>f. generate_mock_audio py srv text w =
              (Inr (mock_output_path py srv text),
               w\<lparr>calls := calls w @ [MockAudio text],
                 files := (files w)(mock_output_path py srv text \<mapsto> f)\<rparr>)
            \<and> nchannels f = 1 \<and> sampwidth f = 2 \<and> framerate f = 22050
            \<and> getnframes f = 22050
            \<and> frames f = replicate 44100 0
            \<and> samples (frames f) = replicate 22050 0
            \<and> (get_json req = Inr (JObject kvs)
                 \<and> map_of kvs (S ''text'') = Some (JString s)
                 \<and> strip s = text \<and> text \<noteq> []
                 \<and> py_float py (case map_of kvs (S ''speed'') of
                                   Some v \<Rightarrow> v | None \<Rightarrow> JFloat (Fin 1)) = Inr speed
                 \<and> tts_model srv = None \<longrightarrow>
                fst (synthesize_speech py srv req w) =
                  SendFile (mock_output_path py srv text) f (S ''audio/wav'') (S ''speech.wav'')
                \<and> status_code (fst (synthesize_speech py srv req w)) = 200)"
proof -
  let ?f = "\<lparr>nchannels = 1, sampwidth = 2, framerate = 22050, frames = replicate 44100 0\<rparr>"
  have g: "generate_mock_audio py srv text w =
              (Inr (mock_output_path py srv text),
               w\<lparr>calls := calls w @ [MockAudio text],
                 files := (files w)(mock_output_path py srv text \<mapsto> ?f)\<rparr>)"
    using assms by (rule generate_mock_audio_ok)
  have p: "nchannels ?f = 1 \<and> sampwidth ?f = 2 \<and> framerate ?f = 22050
            \<and> getnframes ?f = 22050 \<and> frames ?f = replicate 44100 0
            \<and> samples (frames ?f) = replicate 22050 0"
    using silent_file_props by simp
  have h: "get_json req = Inr (JObject kvs)
                 \<and> map_of kvs (S ''text'') = Some (JString s)
                 \<and> strip s = text \<and> text \<noteq> []
                 \<and> py_float py (case map_of kvs (S ''speed'') of
                                   Some v \<Rightarrow> v | None \<Rightarrow> JFloat (Fin 1)) = Inr speed
                 \<and> tts_model srv = None \<longrightarrow>
                fst (synthesize_speech py srv req w) =
                  SendFile (mock_output_path py srv text) ?f (S ''audio/wav'') (S ''speech.wav'')
                \<and> status_code (fst (synthesize_speech py srv req w)) = 200"
  proof
    assume a: "get_json req = Inr (JObject kvs)
                 \<and> map_of kvs (S ''text'') = Some (JString s)
                 \<and> strip s = text \<and> text \<noteq> []
                 \<and> py_float py (case map_of kvs (S ''speed'') of
                                   Some v \<Rightarrow> v | None \<Rightarrow> JFloat (Fin 1)) = Inr speed
                 \<and> tts_model srv = None"
    then have a1: "get_json req = Inr (JObject kvs)"
      and a2: "map_of kvs (S ''text'') = Some (JString s)"
      and a3: "strip s \<noteq> []"
      and a4: "py_float py (case map_of kvs (S ''speed'') of
                              Some v \<Rightarrow> v | None \<Rightarrow> JFloat (Fin 1)) = Inr speed"
      and a5: "tts_model srv = None"
      and a6: "strip s = text"
      by simp_all
    have o: "open_error w (mock_output_path py srv (strip s)) = None"
      using assms a6 by simp
    note synthesize_speech_mock_ok [OF a1 a2 a3 a4 a5 o]
    with a6 show "fst (synthesize_speech py srv req w) =
                  SendFile (mock_output_path py srv text) ?f (S ''audio/wav'') (S ''speech.wav'')
                \<and> status_code (fst (synthesize_speech py srv req w)) = 200"
      by simp
  qed
  from g p h show ?thesis by blast
qed

theorem silence_provider_writes_one_second_of_silence_witness:
  "open_error empty_world (mock_output_path example_python mock_server (S ''Hello'')) = None
   \<and> get_json hello_request = Inr (JObject [(S ''text'', JString (S ''Hello''))])
   \<and> strip (S ''Hello'') = S ''Hello''
   \<and> tts_model mock_server = None
   \<and> (\<exists>f. fst (synthesize_speech example_python mock_server hello_request empty_world) =
             SendFile (S ''/tmp/tmpk3/mock_tts_5.wav'') f (S ''audio/wav'') (S ''speech.wav'')
           \<and> nchannels f = 1 \<and> sampwidth f = 2 \<and> framerate f = 22050
           \<and> getnframes f = 22050 \<and> samples (frames f) = replicate 22050 0)
   \<and> status_code (fst (synthesize_speech example_python mock_server hello_request empty_world)) = 200"
proof -
  let ?kh = "[(S ''text'', JString (S ''Hello''))]"
  have o: "open_error empty_world (mock_output_path example_python mock_server (S ''Hello'')) = None"
    by (simp add: empty_world_def)
  have h1: "get_json hello_request = Inr (JObject ?kh)"
    by (simp add: hello_request_def)
  have h2: "map_of ?kh (S ''text'') = Some (JString (S ''Hello''))"
    by simp
  have h3: "S ''Hello'' \<noteq> []"
    by (simp add: S_def)
  have ne: "S ''speed'' \<noteq> S ''text''"
    by (simp add: S_def)
  have h4: "py_float example_python
              (case map_of ?kh (S ''speed'') of Some v \<Rightarrow> v | None \<Rightarrow> JFloat (Fin 1)) = Inr (Fin 1)"
    using ne by simp
  have m: "tts_model mock_server = None"
    by (simp add: mock_server_def)
  from silence_provider_writes_one_second_of_silence
         [OF o, of hello_request ?kh "S ''Hello''" "Fin 1"]
       h1 h2 h3 h4 m strip_Hello o
  show ?thesis
    by (auto simp add: example_paths)
qed



text \<open>
  Claim C6. \<open>GET /health\<close> always answers status \<open>healthy\<close>, \<open>cuda_available\<close> false,
  \<open>model_loaded\<close> true exactly when a model handle is held, and the version tag
  \<open>1.0.0-real\<close> with a model and \<open>1.0.0-mock\<close> without, the two tags being different.
  After \<open>__init__\<close> a handle is held exactly when the library was importable and the
  first or the alternative model loaded.
\<close>

theorem health_reports_model_state:
  "health_check srv =
     \<lparr>status = S ''healthy'',
      model_loaded = (\<exists>m. tts_model srv = Some m),
      cuda_available = False,
      version = (if \<exists>m. tts_model srv = Some m then S ''1.0.0-real'' else S ''1.0.0-mock'')\<rparr>
   \<and> model_loaded (health_check (init_server TTS_AVAILABLE load tmp)) =
       (TTS_AVAILABLE \<and>
        ((\<exists>m. load (S ''tts_models/en/ljspeech/fast_pitch'') = Inr m)
         \<or> (\<exists>m. load (S ''tts_models/en/ljspeech/tacotron2-DDC'') = Inr m)))
   \<and> S ''1.0.0-real'' \<noteq> S ''1.0.0-mock''"
proof -
  have a: "health_check srv =
     \<lparr>status = S ''healthy'',
      model_loaded = (\<exists>m. tts_model srv = Some m),
      cuda_available = False,
      version = (if \<exists>m. tts_model srv = Some m then S ''1.0.0-real'' else S ''1.0.0-mock'')\<rparr>"
    by (simp add: health_check_def)
  have b: "model_loaded (health_check (init_server TTS_AVAILABLE load tmp)) =
       (TTS_AVAILABLE \<and>
        ((\<exists>m. load (S ''tts_models/en/ljspeech/fast_pitch'') = Inr m)
         \<or> (\<exists>m. load (S ''tts_models/en/ljspeech/tacotron2-DDC'') = Inr m)))"
    by (auto simp add: health_check_def init_server_def split: sum.splits)
  have c: "S ''1.0.0-real'' \<noteq> S ''1.0.0-mock''"
    by (simp add: S_def)
  from a b c show ?thesis by blast
qed

text \<open>
  Claim C7. Two valid requests with the same text and any two speeds, served one after
  the other by the same provider variant, are answered from the same path: the silence
  provider's derived path when no model is held (and also when the model call raises both
  times), the model-backed provider's derived path when the model call returns both times
  and leaves a file there. Neither path depends on the speed, and after the second
  request the file at that path is the second request's output: the first one's has been
  replaced without notice.
\<close>

theorem same_text_same_filename:
  assumes "get_json req1 = Inr (JObject kvs1)"
      and "map_of kvs1 (S ''text'') = Some (JString s)"
      and "py_float py (case map_of kvs1 (S ''speed'') of Some v \<Rightarrow> v | None \<Rightarrow> JFloat (Fin 1))
             = Inr speed1"
      and "get_json req2 = Inr (JObject kvs2)"
      and "map_of kvs2 (S ''text'') = Some (JString s)"
      and "py_float py (case map_of kvs2 (S ''speed'') of Some v \<Rightarrow> v | None \<Rightarrow> JFloat (Fin 1))
             = Inr speed2"
      and "strip s \<noteq> []"
  shows "(tts_model srv = None \<and> open_error w (mock_output_path py srv (strip s)) = None \<longrightarrow>
           (\<exists>f1 f2 w1 w2.
              synthesize_speech py srv req1 w =
                (SendFile (mock_output_path py srv (strip s)) f1 (S ''audio/wav'') (S ''speech.wav''), w1)
              \<and> synthesize_speech py srv req2 w1 =
                (SendFile (mock_output_path py srv (strip s)) f2 (S ''audio/wav'') (S ''speech.wav''), w2)
              \<and> files w1 (mock_output_path py srv (strip s)) = Some f1
              \<and> files w2 (mock_output_path py srv (strip s)) = Some f2))
         \<and> (tts_model srv = Some m
              \<and> m (strip s) (coqui_output_path py srv (strip s)) speed1 (files w) = (None, fs1)
              \<and> fs1 (coqui_output_path py srv (strip s)) = Some f1'
              \<and> m (strip s) (coqui_output_path py srv (strip s)) speed2 fs1 = (None, fs2)
              \<and> fs2 (coqui_output_path py srv (strip s)) = Some f2' \<longrightarrow>
           (\<exists>w1 w2.
              synthesize_speech py srv req1 w =
                (SendFile (coqui_output_path py srv (strip s)) f1' (S ''audio/wav'') (S ''speech.wav''), w1)
              \<and> synthesize_speech py srv req2 w1 =
                (SendFile (coqui_output_path py srv (strip s)) f2' (S ''audio/wav'') (S ''speech.wav''), w2)
              \<and> files w1 (coqui_output_path py srv (strip s)) = Some f1'
              \<and> files w2 (coqui_output_path py srv (strip s)) = Some f2'))
         \<and> (tts_model srv = Some m'
              \<and> open_error w (mock_output_path py srv (strip s)) = None
              \<and> m' (strip s) (coqui_output_path py srv (strip s)) speed1 (files w) = (Some e1, gs1)
              \<and> m' (strip s) (coqui_output_path py srv (strip s)) speed2
                    (gs1(mock_output_path py srv (strip s) \<mapsto>
                       \<lparr>nchannels = 1, sampwidth = 2, framerate = 22050,
                        frames = replicate 44100 0\<rparr>)) = (Some e2, gs2) \<longrightarrow>
           (\<exists>f1 f2 w1 w2.
              synthesize_speech py srv req1 w =
                (SendFile (mock_output_path py srv (strip s)) f1 (S ''audio/wav'') (S ''speech.wav''), w1)
              \<and> synthesize_speech py srv req2 w1 =
                (SendFile (mock_output_path py srv (strip s)) f2 (S ''audio/wav'') (S ''speech.wav''), w2)
              \<and> files w1 (mock_output_path py srv (strip s)) = Some f1
              \<and> files w2 (mock_output_path py srv (strip s)) = Some f2))"
proof (intro conjI impI)
  let ?p = "mock_output_path py srv (strip s)"
  let ?f = "\<lparr>nchannels = 1, sampwidth = 2, framerate = 22050, frames = replicate 44100 0\<rparr>"
  let ?w1 = "w\<lparr>calls := calls w @ [MockAudio (strip s)], files := (files w)(?p \<mapsto> ?f)\<rparr>"
  let ?w2 = "?w1\<lparr>calls := calls ?w1 @ [MockAudio (strip s)], files := (files ?w1)(?p \<mapsto> ?f)\<rparr>"
  assume a: "tts_model srv = None \<and> open_error w ?p = None"
  then have n: "tts_model srv = None" and o: "open_error w ?p = None"
    by simp_all
  have o1: "open_error ?w1 ?p = None"
    using o by simp
  have r1: "synthesize_speech py srv req1 w =
              (SendFile ?p ?f (S ''audio/wav'') (S ''speech.wav''), ?w1)"
    by (rule synthesize_speech_mock_ok [OF assms(1,2,7,3) n o])
  have r2: "synthesize_speech py srv req2 ?w1 =
              (SendFile ?p ?f (S ''audio/wav'') (S ''speech.wav''), ?w2)"
    by (rule synthesize_speech_mock_ok [OF assms(4,5,7,6) n o1])
  have "files ?w1 ?p = Some ?f" and "files ?w2 ?p = Some ?f"
    by simp_all
  with r1 r2 show "\<exists>f1 f2 w1 w2.
              synthesize_speech py srv req1 w =
                (SendFile ?p f1 (S ''audio/wav'') (S ''speech.wav''), w1)
              \<and> synthesize_speech py srv req2 w1 =
                (SendFile ?p f2 (S ''audio/wav'') (S ''speech.wav''), w2)
              \<and> files w1 ?p = Some f1 \<and> files w2 ?p = Some f2"
    by blast
next
  let ?p = "coqui_output_path py srv (strip s)"
  let ?w1 = "w\<lparr>calls := calls w @ [RealAudio (strip s) speed1], files := fs1\<rparr>"
  let ?w2 = "?w1\<lparr>calls := calls ?w1 @ [RealAudio (strip s) speed2], files := fs2\<rparr>"
  assume a: "tts_model srv = Some m
              \<and> m (strip s) ?p speed1 (files w) = (None, fs1)
              \<and> fs1 ?p = Some f1'
              \<and> m (strip s) ?p speed2 fs1 = (None, fs2)
              \<and> fs2 ?p = Some f2'"
  then have m: "tts_model srv = Some m"
    and c1: "m (strip s) ?p speed1 (files w) = (None, fs1)"
    and e1: "fs1 ?p = Some f1'"
    and e2: "fs2 ?p = Some f2'"
    by simp_all
  have c2: "m (strip s) ?p speed2 (files ?w1) = (None, fs2)"
    using a by simp
  have r1: "synthesize_speech py srv req1 w =
              (SendFile ?p f1' (S ''audio/wav'') (S ''speech.wav''), ?w1)"
    by (rule synthesize_speech_real_ok [OF assms(1,2,7,3) m c1 e1])
  have r2: "synthesize_speech py srv req2 ?w1 =
              (SendFile ?p f2' (S ''audio/wav'') (S ''speech.wav''), ?w2)"
    by (rule synthesize_speech_real_ok [OF assms(4,5,7,6) m c2 e2])
  have "files ?w1 ?p = Some f1'" and "files ?w2 ?p = Some f2'"
    using e1 e2 by simp_all
  with r1 r2 show "\<exists>w1 w2.
              synthesize_speech py srv req1 w =
                (SendFile ?p f1' (S ''audio/wav'') (S ''speech.wav''), w1)
              \<and> synthesize_speech py srv req2 w1 =
                (SendFile ?p f2' (S ''audio/wav'') (S ''speech.wav''), w2)
              \<and> files w1 ?p = Some f1' \<and> files w2 ?p = Some f2'"
    by blast
next
  let ?p = "mock_output_path py srv (strip s)"
  let ?c = "coqui_output_path py srv (strip s)"
  let ?f = "\<lparr>nchannels = 1, sampwidth = 2, framerate = 22050, frames = replicate 44100 0\<rparr>"
  let ?w1 = "w\<lparr>calls := calls w @ [RealAudio (strip s) speed1, MockAudio (strip s)],
               files := gs1(?p \<mapsto> ?f)\<rparr>"
  let ?w2 = "?w1\<lparr>calls := calls ?w1 @ [RealAudio (strip s) speed2, MockAudio (strip s)],
               files := gs2(?p \<mapsto> ?f)\<rparr>"
  assume a: "tts_model srv = Some m'
              \<and> open_error w ?p = None
              \<and> m' (strip s) ?c speed1 (files w) = (Some e1, gs1)
              \<and> m' (strip s) ?c speed2 (gs1(?p \<mapsto> ?f)) = (Some e2, gs2)"
  then have m: "tts_model srv = Some m'"
    and o: "open_error w ?p = None"
    and c1: "m' (strip s) ?c speed1 (files w) = (Some e1, gs1)"
    by simp_all
  have c2: "m' (strip s) ?c speed2 (files ?w1) = (Some e2, gs2)"
    using a by simp
  have o1: "open_error ?w1 ?p = None"
    using o by simp
  have r1: "synthesize_speech py srv req1 w =
              (SendFile ?p ?f (S ''audio/wav'') (S ''speech.wav''), ?w1)"
    by (rule synthesize_speech_fallback_ok [OF assms(1,2,7,3) m c1 o])
  have r2: "synthesize_speech py srv req2 ?w1 =
              (SendFile ?p ?f (S ''audio/wav'') (S ''speech.wav''), ?w2)"
    by (rule synthesize_speech_fallback_ok [OF assms(4,5,7,6) m c2 o1])
  have "files ?w1 ?p = Some ?f" and "files ?w2 ?p = Some ?f"
    by simp_all
  with r1 r2 show "\<exists>f1 f2 w1 w2.
              synthesize_speech py srv req1 w =
                (SendFile ?p f1 (S ''audio/wav'') (S ''speech.wav''), w1)
              \<and> synthesize_speech py srv req2 w1 =
                (SendFile ?p f2 (S ''audio/wav'') (S ''speech.wav''), w2)
              \<and> files w1 ?p = Some f1 \<and> files w2 ?p = Some f2"
    by blast
qed

theorem same_text_same_filename_witness:
  "get_json hello_request = Inr (JObject [(S ''text'', JString (S ''Hello''))])
   \<and> get_json hello_fast_request =
       Inr (JObject [(S ''text'', JString (S ''Hello'')), (S ''speed'', JInt 2)])
   \<and> strip (S ''Hello'') \<noteq> []
   \<and> tts_model mock_server = None
   \<and> open_error empty_world (mock_output_path example_python mock_server (S ''Hello'')) = None
   \<and> (\<exists>f1 f2 w1 w2.
         synthesize_speech example_python mock_server hello_request empty_world =
           (SendFile (S ''/tmp/tmpk3/mock_tts_5.wav'') f1 (S ''audio/wav'') (S ''speech.wav''), w1)
         \<and> synthesize_speech example_python mock_server hello_fast_request w1 =
           (SendFile (S ''/tmp/tmpk3/mock_tts_5.wav'') f2 (S ''audio/wav'') (S ''speech.wav''), w2)
         \<and> files w1 (S ''/tmp/tmpk3/mock_tts_5.wav'') = Some f1
         \<and> files w2 (S ''/tmp/tmpk3/mock_tts_5.wav'') = Some f2)
   \<and> tts_model real_server = Some speed_tts
   \<and> (\<exists>w1 w2.
         synthesize_speech example_python real_server hello_request empty_world =
           (SendFile (S ''/tmp/tmpk3/coqui_tts_5.wav'')
              \<lparr>nchannels = 1, sampwidth = 2, framerate = 22050, frames = [1, 0]\<rparr>
              (S ''audio/wav'') (S ''speech.wav''), w1)
         \<and> synthesize_speech example_python real_server hello_fast_request w1 =
           (SendFile (S ''/tmp/tmpk3/coqui_tts_5.wav'')
              \<lparr>nchannels = 1, sampwidth = 2, framerate = 22050, frames = [2, 0]\<rparr>
              (S ''audio/wav'') (S ''speech.wav''), w2)
         \<and> files w1 (S ''/tmp/tmpk3/coqui_tts_5.wav'') =
             Some \<lparr>nchannels = 1, sampwidth = 2, framerate = 22050, frames = [1, 0]\<rparr>
         \<and> files w2 (S ''/tmp/tmpk3/coqui_tts_5.wav'') =
             Some \<lparr>nchannels = 1, sampwidth = 2, framerate = 22050, frames = [2, 0]\<rparr>)
   \<and> tts_model raising_server = Some raising_tts
   \<and> (\<exists>f1 f2 w1 w2.
         synthesize_speech example_python raising_server hello_request empty_world =
           (SendFile (S ''/tmp/tmpk3/mock_tts_5.wav'') f1 (S ''audio/wav'') (S ''speech.wav''), w1)
         \<and> synthesize_speech example_python raising_server hello_fast_request w1 =
           (SendFile (S ''/tmp/tmpk3/mock_tts_5.wav'') f2 (S ''audio/wav'') (S ''speech.wav''), w2)
         \<and> files w1 (S ''/tmp/tmpk3/mock_tts_5.wav'') = Some f1
         \<and> files w2 (S ''/tmp/tmpk3/mock_tts_5.wav'') = Some f2)"
proof -
  let ?kh = "[(S ''text'', JString (S ''Hello''))]"
  let ?kf = "[(S ''text'', JString (S ''Hello'')), (S ''speed'', JInt 2)]"
  let ?p = "coqui_output_path example_python real_server (strip (S ''Hello''))"
  let ?f1 = "\<lparr>nchannels = 1, sampwidth = 2, framerate = 22050, frames = [1, 0]\<rparr>"
  let ?f2 = "\<lparr>nchannels = 1, sampwidth = 2, framerate = 22050, frames = [2, 0]\<rparr>"
  let ?fs1 = "(files empty_world)(?p \<mapsto> ?f1)"
  let ?fs2 = "?fs1(?p \<mapsto> ?f2)"
  have ne: "S ''speed'' \<noteq> S ''text''"
    by (simp add: S_def)
  have h1: "get_json hello_request = Inr (JObject ?kh)"
    by (simp add: hello_request_def)
  have h2: "map_of ?kh (S ''text'') = Some (JString (S ''Hello''))"
    by simp
  have h3: "py_float example_python
              (case map_of ?kh (S ''speed'') of Some v \<Rightarrow> v | None \<Rightarrow> JFloat (Fin 1)) = Inr (Fin 1)"
    using ne by simp
  have f1: "get_json hello_fast_request = Inr (JObject ?kf)"
    by (simp add: hello_fast_request_def)
  have f2: "map_of ?kf (S ''text'') = Some (JString (S ''Hello''))"
    by simp
  have f3: "py_float example_python
              (case map_of ?kf (S ''speed'') of Some v \<Rightarrow> v | None \<Rightarrow> JFloat (Fin 1)) = Inr (Fin 2)"
    using ne by (simp add: example_python_def)
  have st: "strip (S ''Hello'') \<noteq> []"
    unfolding strip_Hello by (simp add: S_def)
  have mm: "tts_model mock_server = None"
    by (simp add: mock_server_def)
  have mo: "open_error empty_world
              (mock_output_path example_python mock_server (strip (S ''Hello''))) = None"
    by (simp add: empty_world_def)
  have rm: "tts_model real_server = Some speed_tts"
    by (simp add: real_server_def)
  have c1: "speed_tts (strip (S ''Hello'')) ?p (Fin 1) (files empty_world) = (None, ?fs1)"
    by (simp add: speed_tts_def)
  have e1: "?fs1 ?p = Some ?f1"
    by simp
  have c2: "speed_tts (strip (S ''Hello'')) ?p (Fin 2) ?fs1 = (None, ?fs2)"
    by (simp add: speed_tts_def)
  have e2: "?fs2 ?p = Some ?f2"
    by simp
  note t = same_text_same_filename [OF h1 h2 h3 f1 f2 f3 st]
  have a: "\<exists>f1 f2 w1 w2.
         synthesize_speech example_python mock_server hello_request empty_world =
           (SendFile (S ''/tmp/tmpk3/mock_tts_5.wav'') f1 (S ''audio/wav'') (S ''speech.wav''), w1)
         \<and> synthesize_speech example_python mock_server hello_fast_request w1 =
           (SendFile (S ''/tmp/tmpk3/mock_tts_5.wav'') f2 (S ''audio/wav'') (S ''speech.wav''), w2)
         \<and> files w1 (S ''/tmp/tmpk3/mock_tts_5.wav'') = Some f1
         \<and> files w2 (S ''/tmp/tmpk3/mock_tts_5.wav'') = Some f2"
    using t [of mock_server empty_world, THEN conjunct1] mm mo
    by (simp add: strip_Hello example_paths)
  have b: "\<exists>w1 w2.
         synthesize_speech example_python real_server hello_request empty_world =
           (SendFile (S ''/tmp/tmpk3/coqui_tts_5.wav'') ?f1 (S ''audio/wav'') (S ''speech.wav''), w1)
         \<and> synthesize_speech example_python real_server hello_fast_request w1 =
           (SendFile (S ''/tmp/tmpk3/coqui_tts_5.wav'') ?f2 (S ''audio/wav'') (S ''speech.wav''), w2)
         \<and> files w1 (S ''/tmp/tmpk3/coqui_tts_5.wav'') = Some ?f1
         \<and> files w2 (S ''/tmp/tmpk3/coqui_tts_5.wav'') = Some ?f2"
    using t [of real_server empty_world speed_tts ?fs1 ?f1 ?fs2 ?f2,
                   THEN conjunct2, THEN conjunct1]
          rm c1 e1 c2 e2
    by (simp add: strip_Hello example_paths)
  let ?q = "mock_output_path example_python raising_server (strip (S ''Hello''))"
  let ?sil = "\<lparr>nchannels = 1, sampwidth = 2, framerate = 22050, frames = replicate 44100 0\<rparr>"
  let ?e = "PyExc ''RuntimeError'' (S ''model failure'')"
  let ?r = "coqui_output_path example_python raising_server (strip (S ''Hello''))"
  have xm: "tts_model raising_server = Some raising_tts"
    by (simp add: raising_server_def)
  have xo: "open_error empty_world ?q = None"
    by (simp add: empty_world_def)
  have x1: "raising_tts (strip (S ''Hello'')) ?r (Fin 1) (files empty_world) =
              (Some ?e, files empty_world)"
    by (simp add: raising_tts_def)
  have x2: "raising_tts (strip (S ''Hello'')) ?r (Fin 2) ((files empty_world)(?q \<mapsto> ?sil)) =
              (Some ?e, (files empty_world)(?q \<mapsto> ?sil))"
    by (simp add: raising_tts_def)
  have c: "\<exists>f1 f2 w1 w2.
         synthesize_speech example_python raising_server hello_request empty_world =
           (SendFile (S ''/tmp/tmpk3/mock_tts_5.wav'') f1 (S ''audio/wav'') (S ''speech.wav''), w1)
         \<and> synthesize_speech example_python raising_server hello_fast_request w1 =
           (SendFile (S ''/tmp/tmpk3/mock_tts_5.wav'') f2 (S ''audio/wav'') (S ''speech.wav''), w2)
         \<and> files w1 (S ''/tmp/tmpk3/mock_tts_5.wav'') = Some f1
         \<and> files w2 (S ''/tmp/tmpk3/mock_tts_5.wav'') = Some f2"
    using t [of raising_server empty_world _ _ _ _ _ raising_tts ?e "files empty_world"
               ?e "(files empty_world)(?q \<mapsto> ?sil)", THEN conjunct2, THEN conjunct2]
          xm xo x1 x2
    by (simp add: strip_Hello example_paths)
  from h1 f1 st mm mo a rm b xm c show ?thesis
    by (simp add: strip_Hello)
qed

text \<open>
  Claim C8, as the code has it. In a JSON object whose \<open>text\<close> value is present but not a
  string, \<open>.strip()\<close> raises and the answer is 500 with that exception's message. In a
  JSON object whose \<open>text\<close> is a string that is not empty after stripping, a \<open>speed\<close> that
  is present and that \<open>float()\<close> rejects gives 500 with that exception's message. In both
  cases the world is unchanged: no provider was called and no file was produced.
\<close>

theorem malformed_text_or_speed_is_server_error:
  "(get_json req1 = Inr (JObject kvs1) \<and> map_of kvs1 (S ''text'') = Some v
      \<and> type_name v \<noteq> ''str'' \<longrightarrow>
     (\<exists>e. py_strip v = Inl e
          \<and> synthesize_speech py srv req1 w = (JsonError (exc_str e) 500, w)))
   \<and> (get_json req2 = Inr (JObject kvs2) \<and> map_of kvs2 (S ''text'') = Some (JString s)
        \<and> strip s \<noteq> [] \<and> map_of kvs2 (S ''speed'') = Some sv \<and> py_float py sv = Inl e2 \<longrightarrow>
       synthesize_speech py srv req2 w = (JsonError (exc_str e2) 500, w))"
proof (intro conjI impI)
  assume a: "get_json req1 = Inr (JObject kvs1) \<and> map_of kvs1 (S ''text'') = Some v
      \<and> type_name v \<noteq> ''str''"
  then have mem: "(S ''text'', v) \<in> set kvs1"
    by (simp add: map_of_SomeD)
  then have ne: "kvs1 \<noteq> []" and key: "S ''text'' \<in> fst ` set kvs1"
    by force+
  from a obtain e where e: "py_strip v = Inl e"
    by (cases v) simp_all
  with a ne key have "synthesize_speech py srv req1 w = (JsonError (exc_str e) 500, w)"
    by (simp add: synthesize_speech_def synthesize_speech_try_def)
  with e show "\<exists>e. py_strip v = Inl e
          \<and> synthesize_speech py srv req1 w = (JsonError (exc_str e) 500, w)"
    by blast
next
  assume a: "get_json req2 = Inr (JObject kvs2) \<and> map_of kvs2 (S ''text'') = Some (JString s)
        \<and> strip s \<noteq> [] \<and> map_of kvs2 (S ''speed'') = Some sv \<and> py_float py sv = Inl e2"
  then have mem: "(S ''text'', JString s) \<in> set kvs2"
    by (simp add: map_of_SomeD)
  then have ne: "kvs2 \<noteq> []" and key: "S ''text'' \<in> fst ` set kvs2"
    by force+
  with a show "synthesize_speech py srv req2 w = (JsonError (exc_str e2) 500, w)"
    by (simp add: synthesize_speech_def synthesize_speech_try_def)
qed

theorem malformed_text_or_speed_is_server_error_witness:
  "get_json number_request = Inr (JObject [(S ''text'', JInt 5)])
   \<and> type_name (JInt 5) \<noteq> ''str''
   \<and> synthesize_speech example_python real_server number_request empty_world =
       (JsonError ([39] @ S ''int'' @ [39] @ S '' object has no attribute '' @ [39] @ S ''strip'' @ [39])
          500, empty_world)
   \<and> get_json bad_speed_request =
       Inr (JObject [(S ''text'', JString (S ''Hello'')), (S ''speed'', JString (S ''fast''))])
   \<and> strip (S ''Hello'') \<noteq> []
   \<and> py_float example_python (JString (S ''fast'')) =
       Inl (PyExc ''ValueError'' (S ''could not convert string to float''))
   \<and> synthesize_speech example_python real_server bad_speed_request empty_world =
       (JsonError (S ''could not convert string to float'') 500, empty_world)"
proof -
  let ?kn = "[(S ''text'', JInt 5)]"
  let ?kb = "[(S ''text'', JString (S ''Hello'')), (S ''speed'', JString (S ''fast''))]"
  have ne: "S ''speed'' \<noteq> S ''text''"
    by (simp add: S_def)
  have n1: "get_json number_request = Inr (JObject ?kn)"
    by (simp add: number_request_def)
  have n2: "map_of ?kn (S ''text'') = Some (JInt 5)"
    by simp
  have n3: "type_name (JInt 5) \<noteq> ''str''"
    by simp
  have b1: "get_json bad_speed_request = Inr (JObject ?kb)"
    by (simp add: bad_speed_request_def)
  have b2: "map_of ?kb (S ''text'') = Some (JString (S ''Hello''))"
    by simp
  have b3: "strip (S ''Hello'') \<noteq> []"
    unfolding strip_Hello by (simp add: S_def)
  have b4: "map_of ?kb (S ''speed'') = Some (JString (S ''fast''))"
    using ne by simp
  have b5: "py_float example_python (JString (S ''fast'')) =
       Inl (PyExc ''ValueError'' (S ''could not convert string to float''))"
    by (simp add: example_python_def)
  from malformed_text_or_speed_is_server_error
         [of number_request ?kn "JInt 5" example_python real_server empty_world
             bad_speed_request ?kb "S ''Hello''" "JString (S ''fast'')"
             "PyExc ''ValueError'' (S ''could not convert string to float'')"]
       n1 n2 n3 b1 b2 b3 b4 b5
  show ?thesis
    by simp
qed

text \<open>
  Counterexample to claim C8 as written, which promises 500 whenever the speed does not
  convert. The text is
  validated first: a request with a speed that does not convert and no text is answered
  400.
\<close>

theorem bad_speed_with_missing_text_is_400:
  "get_json speed_only_request = Inr (JObject [(S ''speed'', JString (S ''fast''))])
   \<and> map_of [(S ''speed'', JString (S ''fast''))] (S ''speed'') = Some (JString (S ''fast''))
   \<and> py_float example_python (JString (S ''fast'')) =
       Inl (PyExc ''ValueError'' (S ''could not convert string to float''))
   \<and> synthesize_speech example_python real_server speed_only_request empty_world =
       (JsonError (S ''Missing text parameter'') 400, empty_world)
   \<and> status_code (fst (synthesize_speech example_python real_server speed_only_request empty_world))
       \<noteq> 500"
proof -
  have ne: "S ''text'' \<noteq> S ''speed''"
    by (simp add: S_def)
  have r: "synthesize_speech example_python real_server speed_only_request empty_world =
       (JsonError (S ''Missing text parameter'') 400, empty_world)"
    using ne
    by (simp add: synthesize_speech_def synthesize_speech_try_def speed_only_request_def)
  then show ?thesis
    by (simp add: speed_only_request_def example_python_def)
qed

text \<open>
  Claim C9. The handler of \<open>POST /api/tts\<close> answers every request with one response:
  the streamed WAV file with status 200, or a JSON error with status 400, or a JSON
  error with status 500. No exception leaves it: whatever is raised inside the \<open>try\<close>
  block becomes the 500 answer.
\<close>

theorem handler_total_200_400_500:
  "(\<exists>p f. fst (synthesize_speech py srv req w) = SendFile p f (S ''audio/wav'') (S ''speech.wav'')
          \<and> status_code (fst (synthesize_speech py srv req w)) = 200)
   \<or> (\<exists>msg. fst (synthesize_speech py srv req w) = JsonError msg 400)
   \<or> (\<exists>msg. fst (synthesize_speech py srv req w) = JsonError msg 500)"
proof -
  obtain r w' where t: "synthesize_speech_try py srv req w = (r, w')"
    by (cases "synthesize_speech_try py srv req w")
  from synthesize_speech_try_shape [OF t] show ?thesis
    by (auto simp: synthesize_speech_def t)
qed

text \<open>
  Claim C10. The path derived by the model-backed provider (prefix \<open>coqui_tts_\<close>) is never
  the path derived by the silence provider (prefix \<open>mock_tts_\<close>), for the same text and
  for any two texts: the two providers never write the same file of the temp directory.
\<close>

theorem provider_paths_disjoint:
  "coqui_output_path py srv text1 \<noteq> mock_output_path py srv text2"
proof -
  let ?a = "temp_dir srv"
  let ?c = "S ''coqui_tts_'' @ str_int (py_hash py text1) @ S ''.wav''"
  let ?m = "S ''mock_tts_'' @ str_int (py_hash py text2) @ S ''.wav''"
  have c: "path_join ?a ?c = (if ?a = [] \<or> last ?a = 47 then ?a @ ?c else ?a @ [47] @ ?c)"
    by (simp add: path_join_def S_def)
  have m: "path_join ?a ?m = (if ?a = [] \<or> last ?a = 47 then ?a @ ?m else ?a @ [47] @ ?m)"
    by (simp add: path_join_def S_def)
  have "?c \<noteq> ?m" by (rule prefixes_differ)
  then have "path_join ?a ?c \<noteq> path_join ?a ?m"
    unfolding c m by simp
  then show ?thesis
    by (simp add: coqui_output_path_def mock_output_path_def)
qed

end
